theory Spec2Isabelle
  imports Main "HOL-Library.Word" "HOL-Library.AList"
begin

section \<open>Download codes\<close>

text \<open>
  The three backends (\<^verbatim>\<open>database/mongodb_client.py\<close>, \<^verbatim>\<open>database/mongodb_client_sync.py\<close>,
  \<^verbatim>\<open>database/supabase_client.py\<close>) share one code generator:
  \<^verbatim>\<open>
  def generate_download_code(length: int = 8) -> str:
      return str(uuid.uuid4()).replace('-', '').upper()[:length]
  \<close>
  The random UUID is an input of the model: a 128-bit integer, as \<^verbatim>\<open>uuid.UUID.int\<close> is.
  Python prints it as 32 lower-case hexadecimal digits (\<^verbatim>\<open>'%032x' % int\<close>) in groups of
  8, 4, 4, 4 and 12 joined by dashes.

  Strings are lists of 8-bit characters; \<open>upper\<close> is Python's \<^verbatim>\<open>str.upper\<close> on ASCII
  (the letters a to z move to A to Z, every other character stays).
\<close>

type_synonym uuid = "128 word"

definition hexdigit :: "nat \<Rightarrow> char" where
  "hexdigit d = ''0123456789abcdef'' ! d"

definition hex32 :: "nat \<Rightarrow> string" where
  "hex32 n = map (\<lambda>i. hexdigit (n div 16 ^ i mod 16)) (rev [0..<32])"

definition uuid_str :: "uuid \<Rightarrow> string" where
  "uuid_str u =
     (let hex = hex32 (unat u)
      in take 8 hex @ ''-'' @ take 4 (drop 8 hex) @ ''-'' @ take 4 (drop 12 hex) @ ''-'' @
         take 4 (drop 16 hex) @ ''-'' @ drop 20 hex)"

definition upper_char :: "char \<Rightarrow> char" where
  "upper_char c =
     (let n = (of_char c :: nat) in if 97 \<le> n \<and> n \<le> 122 then char_of (n - 32) else c)"

definition upper :: "string \<Rightarrow> string" where
  "upper s = map upper_char s"

definition replace_dash :: "string \<Rightarrow> string" where
  "replace_dash s = filter (\<lambda>c. c \<noteq> CHR ''-'') s"

text \<open>Python's slice \<^verbatim>\<open>xs[:n]\<close>: a negative \<open>n\<close> counts from the end.\<close>

definition slice_to :: "'a list \<Rightarrow> int \<Rightarrow> 'a list" where
  "slice_to xs n = (if 0 \<le> n then take (nat n) xs else take (length xs - nat (- n)) xs)"

definition generate_download_code :: "uuid \<Rightarrow> int \<Rightarrow> string" where
  "generate_download_code u len = slice_to (upper (replace_dash (uuid_str u))) len"

text \<open>
  \<^verbatim>\<open>routes/file_routes.py\<close> writes the generator inline:
  \<^verbatim>\<open>download_code = str(uuid.uuid4())[:8].upper()\<close>.
\<close>

definition routes_download_code :: "uuid \<Rightarrow> string" where
  "routes_download_code u = upper (slice_to (uuid_str u) 8)"

definition hex_alphabet :: "char set" where
  "hex_alphabet = set ''0123456789ABCDEF''"

definition alnum_alphabet :: "char set" where
  "alnum_alphabet = set ''0123456789ABCDEFGHIJKLMNOPQRSTUVWXYZ''"

section \<open>The document-store backend\<close>

text \<open>
  \<^verbatim>\<open>database/mongodb_client.py\<close> keeps the metadata documents in the collection
  \<^verbatim>\<open>files\<close> and the bytes in GridFS. A document is the dictionary that
  \<^verbatim>\<open>create_file_record\<close> builds; \<^verbatim>\<open>_id\<close> is written \<open>oid\<close>. Times are seconds.
  The collection is a list in insertion order, which is the order \<^verbatim>\<open>find_one\<close> and
  \<^verbatim>\<open>update_one\<close> take the first match from; GridFS is an association list from file
  ids to stored files. \<^verbatim>\<open>ObjectId()\<close> is an allocator in the state. The clock
  (\<^verbatim>\<open>datetime.utcnow()\<close>) is an input; the reads within one call are one instant.
\<close>

type_synonym bytes = "8 word list"
type_synonym object_id = nat
type_synonym datetime = int

record UploadFile =
  uf_filename :: string
  uf_size :: int
  uf_content_type :: "string option"
  uf_content :: bytes

record grid_file =
  gf_filename :: string
  gf_content :: bytes
  gf_content_type :: "string option"
  gf_download_code :: string
  gf_upload_date :: datetime
  gf_original_size :: nat

record file_record =
  oid :: object_id
  download_code :: string
  original_filename :: string
  file_size :: int
  mime_type :: "string option"
  gridfs_id :: object_id
  upload_date :: datetime
  download_count :: int
  expiry_date :: "datetime option"
  is_active :: bool

record database =
  files_collection :: "file_record list"
  gridfs_bucket :: "(object_id \<times> grid_file) list"
  next_object_id :: object_id

text \<open>
  Every driver call sits in a \<^verbatim>\<open>try\<close>; which calls raise during one operation is an
  input of that operation. Besides these faults a call raises where the store itself
  refuses: a duplicate \<^verbatim>\<open>_id\<close> on insert, a missing file on a GridFS read or delete.
\<close>

record faults =
  upload_from_stream_raises :: bool
  open_download_stream_raises :: bool
  gridfs_delete_raises :: bool
  insert_one_raises :: bool
  find_raises :: bool
  update_one_raises :: bool

definition no_faults :: faults where
  "no_faults = \<lparr>upload_from_stream_raises = False, open_download_stream_raises = False,
     gridfs_delete_raises = False, insert_one_raises = False, find_raises = False,
     update_one_raises = False\<rparr>"

text \<open>
  An error response: the status code and the fixed part of its detail (the text of the
  driver's own error, which the source appends, is left out).
\<close>

datatype response_error = HTTPException nat string | JSONResponse nat string

definition days :: "int \<Rightarrow> int" where
  "days n = n * 86400"

definition MAX_FILE_SIZE :: int where
  "MAX_FILE_SIZE = 100 * 1024 * 1024"

definition validate_file_size :: "int \<Rightarrow> int \<Rightarrow> bool" where
  "validate_file_size fsize max_size = (fsize \<le> max_size)"

text \<open>\<^verbatim>\<open>update_one\<close>: the first document that matches is changed, no other.\<close>

fun update_one :: "('a \<Rightarrow> bool) \<Rightarrow> ('a \<Rightarrow> 'a) \<Rightarrow> 'a list \<Rightarrow> 'a list" where
  "update_one p f [] = []"
| "update_one p f (x # xs) = (if p x then f x # xs else x # update_one p f xs)"

definition upload_file_to_mongodb ::
  "faults \<Rightarrow> database \<Rightarrow> UploadFile \<Rightarrow> string \<Rightarrow> datetime \<Rightarrow> database \<times> (response_error + object_id)" where
  "upload_file_to_mongodb f db file code now =
     (let file_id = next_object_id db;
          db1 = db\<lparr>next_object_id := file_id + 1\<rparr>
      in if upload_from_stream_raises f then (db, Inl (HTTPException 500 ''File upload failed''))
         else if map_of (gridfs_bucket db) file_id \<noteq> None
         then (db1, Inl (HTTPException 500 ''File upload failed''))
         else (db1\<lparr>gridfs_bucket := gridfs_bucket db @
                 [(file_id, \<lparr>gf_filename = uf_filename file, gf_content = uf_content file,
                    gf_content_type = uf_content_type file, gf_download_code = code,
                    gf_upload_date = now, gf_original_size = length (uf_content file)\<rparr>)]\<rparr>,
               Inr file_id))"

definition download_file_from_mongodb ::
  "faults \<Rightarrow> database \<Rightarrow> object_id \<Rightarrow> response_error + bytes \<times> string" where
  "download_file_from_mongodb f db gid =
     (if open_download_stream_raises f then Inl (HTTPException 404 ''File download failed'')
      else case map_of (gridfs_bucket db) gid of
             None \<Rightarrow> Inl (HTTPException 404 ''File download failed'')
           | Some g \<Rightarrow> Inr (gf_content g, gf_filename g))"

definition create_file_record ::
  "faults \<Rightarrow> database \<Rightarrow> string \<Rightarrow> UploadFile \<Rightarrow> object_id \<Rightarrow> datetime \<Rightarrow>
     database \<times> (response_error + file_record)" where
  "create_file_record f db code file gid now =
     (let r = \<lparr>oid = next_object_id db, download_code = upper code,
                original_filename = uf_filename file, file_size = uf_size file,
                mime_type = uf_content_type file, gridfs_id = gid, upload_date = now,
                download_count = 0, expiry_date = Some (now + days 7), is_active = True\<rparr>;
          db1 = db\<lparr>next_object_id := next_object_id db + 1\<rparr>
      in if insert_one_raises f then (db1, Inl (HTTPException 500 ''Failed to create file record''))
         else if find (\<lambda>x. oid x = oid r) (files_collection db) \<noteq> None
         then (db1, Inl (HTTPException 500 ''Failed to create file record''))
         else (db1\<lparr>files_collection := files_collection db @ [r]\<rparr>, Inr r))"

definition get_file_by_code :: "faults \<Rightarrow> database \<Rightarrow> string \<Rightarrow> file_record option" where
  "get_file_by_code f db code =
     (if find_raises f then None
      else find (\<lambda>r. download_code r = upper code \<and> is_active r) (files_collection db))"

definition increment_download_count :: "faults \<Rightarrow> database \<Rightarrow> object_id \<Rightarrow> database \<times> bool" where
  "increment_download_count f db file_id =
     (if update_one_raises f then (db, False)
      else (db\<lparr>files_collection :=
                update_one (\<lambda>r. oid r = file_id) (\<lambda>r. r\<lparr>download_count := download_count r + 1\<rparr>)
                  (files_collection db)\<rparr>,
            find (\<lambda>r. oid r = file_id) (files_collection db) \<noteq> None))"

text \<open>
  The expiry sweep of \<^verbatim>\<open>mongodb_client.py\<close>. The query selects the documents with
  \<^verbatim>\<open>expiry_date <= now\<close> and \<^verbatim>\<open>is_active\<close>; the loop body is one \<^verbatim>\<open>try\<close>: delete the
  GridFS file, then mark the document inactive, then count it; an exception in either call
  skips the rest of the body (\<^verbatim>\<open>continue\<close>).
\<close>

definition expired :: "datetime \<Rightarrow> file_record \<Rightarrow> bool" where
  "expired now r = (is_active r \<and> (case expiry_date r of None \<Rightarrow> False | Some e \<Rightarrow> e \<le> now))"

fun cleanup_loop :: "faults \<Rightarrow> file_record list \<Rightarrow> database \<Rightarrow> nat \<Rightarrow> database \<times> nat" where
  "cleanup_loop f [] db cleaned_count = (db, cleaned_count)"
| "cleanup_loop f (r # rs) db cleaned_count =
     (if gridfs_delete_raises f then cleanup_loop f rs db cleaned_count
      else if map_of (gridfs_bucket db) (gridfs_id r) = None then cleanup_loop f rs db cleaned_count
      else let db1 = db\<lparr>gridfs_bucket := AList.delete (gridfs_id r) (gridfs_bucket db)\<rparr>
           in if update_one_raises f then cleanup_loop f rs db1 cleaned_count
              else cleanup_loop f rs
                     (db1\<lparr>files_collection :=
                        update_one (\<lambda>x. oid x = oid r) (\<lambda>x. x\<lparr>is_active := False\<rparr>)
                          (files_collection db1)\<rparr>)
                     (cleaned_count + 1))"

definition cleanup_expired_files :: "faults \<Rightarrow> database \<Rightarrow> datetime \<Rightarrow> database \<times> nat" where
  "cleanup_expired_files f db now =
     (if find_raises f then (db, 0)
      else cleanup_loop f (filter (expired now) (files_collection db)) db 0)"

subsection \<open>The handlers of \<^verbatim>\<open>main.py\<close>\<close>

text \<open>
  \<^verbatim>\<open>upload_file\<close> answers with the code, the file name and the size, or with a
  \<^verbatim>\<open>JSONResponse\<close> (413 for a file over the limit, 500 carrying the detail of whatever a
  helper raised). The UUID drawn by \<^verbatim>\<open>generate_download_code()\<close> and the clock are inputs.
\<close>

fun detail :: "response_error \<Rightarrow> string" where
  "detail (HTTPException st d) = d"
| "detail (JSONResponse st d) = d"

definition upload_file ::
  "faults \<Rightarrow> database \<Rightarrow> UploadFile \<Rightarrow> uuid \<Rightarrow> datetime \<Rightarrow>
     database \<times> (response_error + string \<times> string \<times> int)" where
  "upload_file f db file u now =
     (if \<not> validate_file_size (uf_size file) MAX_FILE_SIZE
      then (db, Inl (JSONResponse 413 ''File size exceeds 100MB limit''))
      else let code = generate_download_code u 8
           in case upload_file_to_mongodb f db file code now of
                (db1, Inl e) \<Rightarrow> (db1, Inl (JSONResponse 500 (detail e)))
              | (db1, Inr file_id) \<Rightarrow>
                  (case create_file_record f db1 code file file_id now of
                     (db2, Inl e) \<Rightarrow> (db2, Inl (JSONResponse 500 (detail e)))
                   | (db2, Inr r) \<Rightarrow> (db2, Inr (code, uf_filename file, uf_size file))))"

text \<open>
  \<^verbatim>\<open>preview_file\<close> and \<^verbatim>\<open>download_file\<close> upper-case the code, look the document up and
  answer 404 "Invalid download code" when there is none. \<^verbatim>\<open>download_file\<close> then reads
  the bytes (an \<^verbatim>\<open>HTTPException\<close> of the read passes through unchanged), increments the
  counter without looking at the outcome, and streams the bytes with the document's
  \<^verbatim>\<open>mime_type\<close> and the file name GridFS holds. Neither handler reads the clock.
\<close>

record preview_data =
  pv_filename :: string
  pv_file_size :: int
  pv_mime_type :: "string option"
  pv_upload_date :: datetime
  pv_download_count :: int

definition preview_file :: "faults \<Rightarrow> database \<Rightarrow> string \<Rightarrow> response_error + preview_data" where
  "preview_file f db code =
     (case get_file_by_code f db (upper code) of
        None \<Rightarrow> Inl (JSONResponse 404 ''Invalid download code'')
      | Some r \<Rightarrow> Inr \<lparr>pv_filename = original_filename r, pv_file_size = file_size r,
                       pv_mime_type = mime_type r, pv_upload_date = upload_date r,
                       pv_download_count = download_count r\<rparr>)"

record StreamingResponse =
  body :: bytes
  media_type :: "string option"
  attachment_filename :: string

definition download_file ::
  "faults \<Rightarrow> database \<Rightarrow> string \<Rightarrow> database \<times> (response_error + StreamingResponse)" where
  "download_file f db code =
     (case get_file_by_code f db (upper code) of
        None \<Rightarrow> (db, Inl (HTTPException 404 ''Invalid download code''))
      | Some r \<Rightarrow>
          (case download_file_from_mongodb f db (gridfs_id r) of
             Inl e \<Rightarrow> (db, Inl e)
           | Inr (file_content, filename) \<Rightarrow>
               (fst (increment_download_count f db (oid r)),
                Inr \<lparr>body = file_content, media_type = mime_type r,
                     attachment_filename = filename\<rparr>)))"

section \<open>The object-storage backend\<close>

text \<open>
  \<^verbatim>\<open>database/supabase_client.py\<close> keeps the rows of the table \<^verbatim>\<open>files\<close> (class
  \<^verbatim>\<open>FileRecord\<close>: \<^verbatim>\<open>id\<close> is the primary key, \<^verbatim>\<open>download_code\<close> is declared
  \<^verbatim>\<open>unique=True\<close>, \<^verbatim>\<open>expiry_date\<close> is nullable) and the bytes in a storage bucket
  addressed by path. An insert that breaks a uniqueness constraint fails at commit.
\<close>

record FileRecord =
  row_id :: string
  row_download_code :: string
  row_original_filename :: string
  row_file_size :: int
  row_mime_type :: "string option"
  row_storage_path :: string
  row_upload_date :: datetime
  row_download_count :: int
  row_expiry_date :: "datetime option"
  row_is_active :: bool

record supabase =
  files_table :: "FileRecord list"
  storage_bucket :: "(string \<times> bytes) list"

record supabase_faults =
  query_raises :: bool
  commit_raises :: bool
  storage_raises :: bool
  create_task_raises :: bool

definition no_supabase_faults :: supabase_faults where
  "no_supabase_faults = \<lparr>query_raises = False, commit_raises = False, storage_raises = False,
     create_task_raises = False\<rparr>"

definition supabase_create_file_record ::
  "supabase_faults \<Rightarrow> supabase \<Rightarrow> string \<Rightarrow> UploadFile \<Rightarrow> string \<Rightarrow> int \<Rightarrow> uuid \<Rightarrow> datetime \<Rightarrow>
     supabase \<times> (response_error + FileRecord)" where
  "supabase_create_file_record f db code file file_path expiry_days u now =
     (let r = \<lparr>row_id = uuid_str u, row_download_code = code,
                row_original_filename = uf_filename file, row_file_size = uf_size file,
                row_mime_type = uf_content_type file, row_storage_path = file_path,
                row_upload_date = now, row_download_count = 0,
                row_expiry_date = (if expiry_days > 0 then Some (now + days expiry_days) else None),
                row_is_active = True\<rparr>
      in if commit_raises f then (db, Inl (HTTPException 500 ''Failed to create file record''))
         else if find (\<lambda>x. row_id x = row_id r) (files_table db) \<noteq> None
         then (db, Inl (HTTPException 500 ''Failed to create file record''))
         else if find (\<lambda>x. row_download_code x = code) (files_table db) \<noteq> None
         then (db, Inl (HTTPException 500 ''Failed to create file record''))
         else (db\<lparr>files_table := files_table db @ [r]\<rparr>, Inr r))"


text \<open>
  The sweep of \<^verbatim>\<open>supabase_client.py\<close>: the storage deletion is handed to
  \<^verbatim>\<open>asyncio.create_task\<close> inside a \<^verbatim>\<open>try\<close> whose \<^verbatim>\<open>except\<close> passes, and
  \<^verbatim>\<open>delete_file_from_supabase\<close> itself returns \<^verbatim>\<open>False\<close> on an error; each selected row is
  then marked inactive and counted, and one commit ends the loop. A failed commit rolls
  the rows back and the sweep returns 0.
\<close>

definition row_expired :: "datetime \<Rightarrow> FileRecord \<Rightarrow> bool" where
  "row_expired now r =
     (row_is_active r \<and> (case row_expiry_date r of None \<Rightarrow> False | Some e \<Rightarrow> e \<le> now))"

definition delete_file_from_supabase ::
  "supabase_faults \<Rightarrow> (string \<times> bytes) list \<Rightarrow> string \<Rightarrow> (string \<times> bytes) list \<times> bool" where
  "delete_file_from_supabase f st file_path =
     (if storage_raises f then (st, False) else (AList.delete file_path st, True))"

fun supabase_cleanup_loop ::
  "supabase_faults \<Rightarrow> FileRecord list \<Rightarrow> (string \<times> bytes) list \<Rightarrow> nat \<Rightarrow>
     (string \<times> bytes) list \<times> nat" where
  "supabase_cleanup_loop f [] st cleaned_count = (st, cleaned_count)"
| "supabase_cleanup_loop f (r # rs) st cleaned_count =
     (let st1 = (if create_task_raises f then st
                 else fst (delete_file_from_supabase f st (row_storage_path r)))
      in supabase_cleanup_loop f rs st1 (cleaned_count + 1))"

definition supabase_cleanup_expired_files ::
  "supabase_faults \<Rightarrow> supabase \<Rightarrow> datetime \<Rightarrow> supabase \<times> nat" where
  "supabase_cleanup_expired_files f db now =
     (if query_raises f then (db, 0)
      else let (st, cleaned_count) =
                 supabase_cleanup_loop f (filter (row_expired now) (files_table db))
                   (storage_bucket db) 0
           in if commit_raises f then (db\<lparr>storage_bucket := st\<rparr>, 0)
              else (db\<lparr>files_table :=
                        map (\<lambda>r. if row_expired now r then r\<lparr>row_is_active := False\<rparr> else r)
                          (files_table db),
                      storage_bucket := st\<rparr>, cleaned_count))"

section \<open>Example states\<close>

text \<open>
  Two version-4 UUIDs that share their first eight digits, two uploads, and the states
  the handlers lead through on them (\<open>db_a\<close> after the first upload into the empty
  store at time 1000, \<open>db_ab\<close> after the second at time 2000).
\<close>

definition u1 :: uuid where
  "u1 = 0x1234abcd00004000800000000000beef"

definition u2 :: uuid where
  "u2 = 0x1234abcd11114111911111111111cafe"

definition file_a :: UploadFile where
  "file_a = \<lparr>uf_filename = ''a.txt'', uf_size = 9, uf_content_type = Some ''text/plain'',
     uf_content = [72, 69, 76, 76, 79, 87, 82, 76, 68]\<rparr>"

definition file_b :: UploadFile where
  "file_b = \<lparr>uf_filename = ''b.bin'', uf_size = 2, uf_content_type = None,
     uf_content = [1, 2]\<rparr>"

definition blob_a :: grid_file where
  "blob_a = \<lparr>gf_filename = ''a.txt'', gf_content = [72, 69, 76, 76, 79, 87, 82, 76, 68],
     gf_content_type = Some ''text/plain'', gf_download_code = ''1234ABCD'',
     gf_upload_date = 1000, gf_original_size = 9\<rparr>"

definition record_a :: file_record where
  "record_a = \<lparr>oid = 1, download_code = ''1234ABCD'', original_filename = ''a.txt'',
     file_size = 9, mime_type = Some ''text/plain'', gridfs_id = 0, upload_date = 1000,
     download_count = 0, expiry_date = Some 605800, is_active = True\<rparr>"

definition empty_db :: database where
  "empty_db = \<lparr>files_collection = [], gridfs_bucket = [], next_object_id = 0\<rparr>"

definition db_a :: database where
  "db_a = \<lparr>files_collection = [record_a], gridfs_bucket = [(0, blob_a)], next_object_id = 2\<rparr>"

definition blob_b :: grid_file where
  "blob_b = \<lparr>gf_filename = ''b.bin'', gf_content = [1, 2], gf_content_type = None,
     gf_download_code = ''1234ABCD'', gf_upload_date = 2000, gf_original_size = 2\<rparr>"

definition record_b :: file_record where
  "record_b = \<lparr>oid = 3, download_code = ''1234ABCD'', original_filename = ''b.bin'',
     file_size = 2, mime_type = None, gridfs_id = 2, upload_date = 2000,
     download_count = 0, expiry_date = Some 606800, is_active = True\<rparr>"

definition db_ab :: database where
  "db_ab = \<lparr>files_collection = [record_a, record_b],
     gridfs_bucket = [(0, blob_a), (2, blob_b)], next_object_id = 4\<rparr>"

definition db_orphan :: database where
  "db_orphan = \<lparr>files_collection = [], gridfs_bucket = [(0, blob_a)], next_object_id = 2\<rparr>"

definition db_missing_blob :: database where
  "db_missing_blob = \<lparr>files_collection = [record_a], gridfs_bucket = [], next_object_id = 2\<rparr>"

definition lookup_outage :: faults where
  "lookup_outage = no_faults\<lparr>find_raises := True\<rparr>"

definition insert_outage :: faults where
  "insert_outage = no_faults\<lparr>insert_one_raises := True\<rparr>"

text \<open>The codes that active documents carry, in collection order.\<close>

definition active_codes :: "database \<Rightarrow> string list" where
  "active_codes db = map download_code (filter is_active (files_collection db))"

definition row_a :: FileRecord where
  "row_a = \<lparr>row_id = ''1234abcd-0000-4000-8000-00000000beef'', row_download_code = ''1234ABCD'',
     row_original_filename = ''a.txt'', row_file_size = 9, row_mime_type = Some ''text/plain'',
     row_storage_path = ''1234ABCD/a.txt'', row_upload_date = 1000, row_download_count = 0,
     row_expiry_date = Some 605800, row_is_active = True\<rparr>"

definition supabase_a :: supabase where
  "supabase_a = \<lparr>files_table = [row_a],
     storage_bucket = [(''1234ABCD/a.txt'', [72, 69, 76, 76, 79, 87, 82, 76, 68])]\<rparr>"

definition empty_supabase :: supabase where
  "empty_supabase = \<lparr>files_table = [], storage_bucket = []\<rparr>"

definition storage_outage :: supabase_faults where
  "storage_outage = no_supabase_faults\<lparr>storage_raises := True\<rparr>"

definition delete_outage :: faults where
  "delete_outage = no_faults\<lparr>gridfs_delete_raises := True\<rparr>"

section \<open>Facts about code generation\<close>

lemma rev_upt_32:
  "rev [0..<32] =
     [31, 30, 29, 28, 27, 26, 25, 24, 23, 22, 21, 20, 19, 18, 17, 16,
      15, 14, 13, 12, 11, 10, 9, 8, 7, 6, 5, 4, 3, 2, 1, 0::nat]"
  by code_simp

lemma length_hex32: "length (hex32 n) = 32"
  by (simp add: hex32_def)

lemma hexdigit_cases:
  assumes "d < 16"
  shows "hexdigit d \<in> set ''0123456789abcdef''"
proof -
  have "d < length ''0123456789abcdef''" using assms by simp
  then have "''0123456789abcdef'' ! d \<in> set ''0123456789abcdef''"
    by (rule nth_mem)
  then show ?thesis by (simp only: hexdigit_def)
qed

lemma set_hex32: "set (hex32 n) \<subseteq> set ''0123456789abcdef''"
proof
  fix c assume "c \<in> set (hex32 n)"
  then obtain i where "c = hexdigit (n div 16 ^ i mod 16)"
    by (auto simp: hex32_def)
  moreover have "n div 16 ^ i mod 16 < 16" by simp
  ultimately show "c \<in> set ''0123456789abcdef''"
    using hexdigit_cases by blast
qed

lemma take_drop_groups:
  "take 8 xs @ take 4 (drop 8 xs) @ take 4 (drop 12 xs) @ take 4 (drop 16 xs) @ drop 20 xs = xs"
proof -
  have a: "take 4 (drop 16 xs) @ drop 20 xs = drop 16 xs"
    using append_take_drop_id [of 4 "drop 16 xs"] by simp
  have b: "take 4 (drop 12 xs) @ drop 16 xs = drop 12 xs"
    using append_take_drop_id [of 4 "drop 12 xs"] by simp
  have c: "take 4 (drop 8 xs) @ drop 12 xs = drop 8 xs"
    using append_take_drop_id [of 4 "drop 8 xs"] by simp
  show ?thesis by (simp only: a b c append_take_drop_id)
qed

lemma replace_dash_hex:
  assumes "set xs \<subseteq> set ''0123456789abcdef''"
  shows "replace_dash xs = xs"
proof -
  have "\<forall>c \<in> set xs. c \<noteq> CHR ''-''" using assms by auto
  then show ?thesis by (simp add: replace_dash_def)
qed

lemma replace_dash_append: "replace_dash (xs @ ys) = replace_dash xs @ replace_dash ys"
  by (simp add: replace_dash_def)

lemma replace_dash_uuid_str: "replace_dash (uuid_str u) = hex32 (unat u)"
proof -
  define hex where "hex = hex32 (unat u)"
  have sub: "\<And>ys. set ys \<subseteq> set hex \<Longrightarrow> replace_dash ys = ys"
    using set_hex32 [of "unat u"] replace_dash_hex unfolding hex_def by blast
  have t8: "replace_dash (take 8 hex) = take 8 hex" by (rule sub) (rule set_take_subset)
  have t4: "\<And>k. replace_dash (take 4 (drop k hex)) = take 4 (drop k hex)"
    by (rule sub) (meson set_take_subset set_drop_subset subset_trans)
  have d20: "replace_dash (drop 20 hex) = drop 20 hex" by (rule sub) (rule set_drop_subset)
  have dash: "replace_dash ''-'' = []" by (simp add: replace_dash_def)
  have "replace_dash (uuid_str u) =
      take 8 hex @ take 4 (drop 8 hex) @ take 4 (drop 12 hex) @ take 4 (drop 16 hex) @ drop 20 hex"
    unfolding uuid_str_def Let_def hex_def [symmetric]
    by (simp only: replace_dash_append t8 t4 d20 dash append_Nil)
  then show ?thesis by (simp only: take_drop_groups hex_def)
qed

lemma upper_char_hex:
  assumes "c \<in> set ''0123456789abcdef''"
  shows "upper_char c \<in> hex_alphabet"
proof -
  have "list_all (\<lambda>d. upper_char d \<in> set ''0123456789ABCDEF'') ''0123456789abcdef''"
    by code_simp
  then show ?thesis
    using assms unfolding hex_alphabet_def list_all_iff by blast
qed

lemma set_upper_hex32: "set (upper (hex32 n)) \<subseteq> hex_alphabet"
  using set_hex32 [of n] upper_char_hex by (auto simp: upper_def)

lemma length_upper: "length (upper s) = length s"
  by (simp add: upper_def)

lemma set_slice_to: "set (slice_to xs n) \<subseteq> set xs"
  by (auto simp: slice_to_def dest: in_set_takeD)

lemma upper_take: "upper (take k s) = take k (upper s)"
  by (simp add: upper_def take_map)

lemma generate_download_code_eq:
  "generate_download_code u len = slice_to (upper (hex32 (unat u))) len"
  by (simp add: generate_download_code_def replace_dash_uuid_str)

lemma uuid_str_take8: "take 8 (uuid_str u) = take 8 (hex32 (unat u))"
  by (simp add: uuid_str_def Let_def length_hex32)

lemma set_generate_download_code: "set (generate_download_code u len) \<subseteq> hex_alphabet"
  unfolding generate_download_code_eq
  using set_slice_to set_upper_hex32 by (rule subset_trans)

lemma length_generate_download_code:
  "0 \<le> len \<Longrightarrow> len \<le> 32 \<Longrightarrow> int (length (generate_download_code u len)) = len"
  by (auto simp: generate_download_code_eq slice_to_def length_upper length_hex32)

lemma card_hex_alphabet: "card hex_alphabet = 16"
  unfolding hex_alphabet_def by simp

lemma code_space_bound: "card (range (\<lambda>u. generate_download_code u 8)) \<le> 16 ^ 8"
proof -
  have fin: "finite hex_alphabet"
    unfolding hex_alphabet_def by simp
  have "range (\<lambda>u. generate_download_code u 8) \<subseteq> {xs. set xs \<subseteq> hex_alphabet \<and> length xs = 8}"
    using set_generate_download_code length_generate_download_code [of 8] by auto
  then have "card (range (\<lambda>u. generate_download_code u 8))
      \<le> card {xs. set xs \<subseteq> hex_alphabet \<and> length xs = 8}"
    using finite_lists_length_eq [OF fin] by (intro card_mono) auto
  then show ?thesis
    by (simp add: card_lists_length_eq [OF fin] card_hex_alphabet)
qed

text \<open>
  C9: for a length from 0 to 32 the code has exactly that many characters, all of them among
  the sixteen digits 0-9 and A-F, which are a strict subset of the 36 upper-case
  alphanumerics, so that at most \<open>16 ^ 8\<close> codes of the default length exist; a length
  above 32 gives the 32 digits of the UUID; the inline generator of
  \<^verbatim>\<open>routes/file_routes.py\<close> produces the same 8 characters. (A negative length, which
  Python's slice counts from the end, is no length of a string and is outside the claim.)
\<close>

theorem generate_download_code_hex:
  "set (generate_download_code u len) \<subseteq> hex_alphabet \<and>
   (0 \<le> len \<and> len \<le> 32 \<longrightarrow> int (length (generate_download_code u len)) = len) \<and>
   (32 < len \<longrightarrow> length (generate_download_code u len) = 32) \<and>
   routes_download_code u = generate_download_code u 8 \<and>
   hex_alphabet \<subset> alnum_alphabet \<and> card hex_alphabet = 16 \<and> card alnum_alphabet = 36 \<and>
   card (range (\<lambda>v. generate_download_code v 8)) \<le> 16 ^ 8"
proof (intro conjI impI)
  show "set (generate_download_code u len) \<subseteq> hex_alphabet"
    by (rule set_generate_download_code)
  show "int (length (generate_download_code u len)) = len" if "0 \<le> len \<and> len \<le> 32"
    using that by (simp add: length_generate_download_code)
  show "length (generate_download_code u len) = 32" if "32 < len"
    using that by (simp add: generate_download_code_eq slice_to_def length_upper length_hex32)
  show "routes_download_code u = generate_download_code u 8"
    by (simp add: routes_download_code_def generate_download_code_eq slice_to_def
        uuid_str_take8 upper_take)
  have "hex_alphabet \<subseteq> alnum_alphabet"
    unfolding hex_alphabet_def alnum_alphabet_def by simp
  moreover have "CHR ''G'' \<in> alnum_alphabet" "CHR ''G'' \<notin> hex_alphabet"
    unfolding hex_alphabet_def alnum_alphabet_def by simp_all
  ultimately show "hex_alphabet \<subset> alnum_alphabet"
    by blast
  show "card hex_alphabet = 16"
    by (rule card_hex_alphabet)
  show "card alnum_alphabet = 36"
    unfolding alnum_alphabet_def by simp
  show "card (range (\<lambda>v. generate_download_code v 8)) \<le> 16 ^ 8"
    by (rule code_space_bound)
qed

theorem generate_download_code_hex_witness:
  "generate_download_code 0x1234abcd00004000800000000000beef 8 = ''1234ABCD'' \<and>
   set ''1234ABCD'' \<subseteq> hex_alphabet \<and> length ''1234ABCD'' = 8 \<and>
   length (generate_download_code 0x1234abcd00004000800000000000beef 40) = 32"
proof -
  have u: "uuid_str 0x1234abcd00004000800000000000beef = ''1234abcd-0000-4000-8000-00000000beef''"
    by (simp add: uuid_str_def hex32_def hexdigit_def rev_upt_32 Let_def)
  have c: "generate_download_code 0x1234abcd00004000800000000000beef 8 = ''1234ABCD''"
    by (simp add: generate_download_code_def slice_to_def replace_dash_def u) code_simp
  show ?thesis
    using generate_download_code_hex [of "0x1234abcd00004000800000000000beef" 8]
      generate_download_code_hex [of "0x1234abcd00004000800000000000beef" 40]
    by (simp add: c)
qed

section \<open>Facts about the case mapping and the list helpers\<close>

lemma upper_char_idem: "upper_char (upper_char c) = upper_char c"
  by (auto simp: upper_char_def Let_def)

lemma upper_idem: "upper (upper s) = upper s"
  by (simp add: upper_def upper_char_idem)

lemma upper_slice_to: "upper (slice_to s n) = slice_to (upper s) n"
  by (simp add: slice_to_def upper_take length_upper)

lemma upper_generate_download_code:
  "upper (generate_download_code u len) = generate_download_code u len"
  by (simp add: generate_download_code_def upper_slice_to upper_idem)

lemma find_append:
  "find P (xs @ ys) = (case find P xs of None \<Rightarrow> find P ys | Some x \<Rightarrow> Some x)"
  by (induction xs) auto

lemma find_None_iff_filter: "(find P xs = None) = (filter P xs = [])"
  by (induction xs) auto

lemma update_one_length: "length (update_one p g xs) = length xs"
  by (induction xs) auto

section \<open>The expiry sweep\<close>

lemma cleanup_loop_delete_fault:
  "gridfs_delete_raises f \<Longrightarrow> cleanup_loop f rs db n = (db, n)"
  by (induction rs) auto

lemma cleanup_loop_all_missing:
  "\<forall>r \<in> set rs. map_of (gridfs_bucket db) (gridfs_id r) = None \<Longrightarrow>
   cleanup_loop f rs db n = (db, n)"
  by (induction rs) auto

lemma cleanup_loop_keeps_missing:
  "map_of (gridfs_bucket db) k = None \<Longrightarrow>
   map_of (gridfs_bucket (fst (cleanup_loop f rs db n))) k = None"
proof (induction rs arbitrary: db n)
  case Nil
  then show ?case by simp
next
  case (Cons r rs)
  have del: "map_of (AList.delete (gridfs_id r) (gridfs_bucket db)) k = None"
    using Cons.prems by (simp add: delete_conv)
  show ?case
    using Cons.prems del by (auto simp: Let_def intro!: Cons.IH)
qed

lemma cleanup_loop_leaves_no_blob:
  "\<not> gridfs_delete_raises f \<Longrightarrow> r \<in> set rs \<Longrightarrow>
   map_of (gridfs_bucket (fst (cleanup_loop f rs db n))) (gridfs_id r) = None"
proof (induction rs arbitrary: db n)
  case Nil
  then show ?case by simp
next
  case (Cons x rs)
  show ?case
  proof (cases "r = x")
    case True
    have del: "map_of (AList.delete (gridfs_id x) (gridfs_bucket db)) (gridfs_id x) = None"
      by (simp add: delete_conv)
    show ?thesis
      using Cons.prems(1) True del
      by (auto simp: Let_def intro!: cleanup_loop_keeps_missing)
  next
    case False
    then have "r \<in> set rs" using Cons.prems(2) by simp
    then show ?thesis
      using Cons.prems(1) by (auto simp: Let_def intro!: Cons.IH)
  qed
qed

lemma expired_update_one:
  "set (filter (expired now) (update_one p (\<lambda>x. x\<lparr>is_active := False\<rparr>) xs))
     \<subseteq> set (filter (expired now) xs)"
  by (induction xs) (auto simp: expired_def)

lemma cleanup_loop_expired_subset:
  "set (filter (expired now) (files_collection (fst (cleanup_loop f rs db n))))
     \<subseteq> set (filter (expired now) (files_collection db))"
proof (induction rs arbitrary: db n)
  case Nil
  then show ?case by simp
next
  case (Cons r rs)
  let ?db1 = "db\<lparr>gridfs_bucket := AList.delete (gridfs_id r) (gridfs_bucket db)\<rparr>"
  let ?db2 = "?db1\<lparr>files_collection :=
      update_one (\<lambda>x. oid x = oid r) (\<lambda>x. x\<lparr>is_active := False\<rparr>) (files_collection ?db1)\<rparr>"
  have a: "set (filter (expired now) (files_collection (fst (cleanup_loop f rs ?db1 n))))
      \<subseteq> set (filter (expired now) (files_collection db))"
    using Cons.IH [of ?db1 n] by simp
  have b: "set (filter (expired now) (files_collection (fst (cleanup_loop f rs ?db2 (n + 1)))))
      \<subseteq> set (filter (expired now) (files_collection db))"
    using Cons.IH [of ?db2 "n + 1"] expired_update_one [of now _ "files_collection db"]
    by (simp add: subset_iff) blast
  show ?case
    using a b Cons.IH [of db n] by (simp add: Let_def)
qed

lemma mongodb_cleanup_idempotent:
  "cleanup_expired_files f (fst (cleanup_expired_files f db now)) now =
     (fst (cleanup_expired_files f db now), 0)"
proof (cases "find_raises f \<or> gridfs_delete_raises f")
  case True
  then show ?thesis
    by (auto simp: cleanup_expired_files_def cleanup_loop_delete_fault)
next
  case False
  define rs where "rs = filter (expired now) (files_collection db)"
  define db' where "db' = fst (cleanup_loop f rs db 0)"
  have first: "fst (cleanup_expired_files f db now) = db'"
    using False by (simp add: cleanup_expired_files_def rs_def db'_def)
  have "\<forall>r \<in> set (filter (expired now) (files_collection db')).
          map_of (gridfs_bucket db') (gridfs_id r) = None"
  proof
    fix r assume "r \<in> set (filter (expired now) (files_collection db'))"
    then have "r \<in> set rs"
      using cleanup_loop_expired_subset [of now f rs db 0] unfolding db'_def rs_def by blast
    then show "map_of (gridfs_bucket db') (gridfs_id r) = None"
      unfolding db'_def using False by (intro cleanup_loop_leaves_no_blob) auto
  qed
  then have "cleanup_loop f (filter (expired now) (files_collection db')) db' 0 = (db', 0)"
    by (rule cleanup_loop_all_missing)
  moreover have "cleanup_expired_files f db' now =
      cleanup_loop f (filter (expired now) (files_collection db')) db' 0"
    using False by (simp add: cleanup_expired_files_def)
  ultimately show ?thesis
    by (simp only: first)
qed

lemma supabase_cleanup_loop_count:
  "snd (supabase_cleanup_loop f rs st n) = n + length rs"
  by (induction rs arbitrary: st n) (simp_all add: Let_def)

lemma supabase_cleanup_loop_storage:
  "fst (supabase_cleanup_loop f rs st n) =
     (if create_task_raises f \<or> storage_raises f then st
      else filter (\<lambda>kv. fst kv \<notin> row_storage_path ` set rs) st)"
proof (induction rs arbitrary: st n)
  case Nil
  then show ?case by simp
next
  case (Cons r rs)
  have "filter (\<lambda>kv. fst kv \<notin> row_storage_path ` set rs) (AList.delete (row_storage_path r) st)
      = filter (\<lambda>kv. fst kv \<notin> row_storage_path ` set (r # rs)) st"
    by (induction st) (auto simp: AList.delete_eq)
  then show ?case
    by (simp add: Cons.IH Let_def delete_file_from_supabase_def)
qed

lemma supabase_cleanup_loop_again:
  "set rs' \<subseteq> set rs \<Longrightarrow>
   fst (supabase_cleanup_loop f rs' (fst (supabase_cleanup_loop f rs st n)) m) =
     fst (supabase_cleanup_loop f rs st n)"
proof -
  assume sub: "set rs' \<subseteq> set rs"
  have "filter (\<lambda>x. fst x \<notin> row_storage_path ` set rs \<and> fst x \<notin> row_storage_path ` set rs') st
      = filter (\<lambda>kv. fst kv \<notin> row_storage_path ` set rs) st"
    using sub by (intro filter_cong) auto
  then show ?thesis
    by (simp add: supabase_cleanup_loop_storage)
qed

lemma row_expired_deactivated:
  "filter (row_expired now)
     (map (\<lambda>r. if row_expired now r then r\<lparr>row_is_active := False\<rparr> else r) rows) = []"
  by (induction rows) (auto simp: row_expired_def)

lemma supabase_cleanup_result:
  "supabase_cleanup_expired_files f db now =
     (if query_raises f then (db, 0)
      else if commit_raises f
      then (db\<lparr>storage_bucket :=
                fst (supabase_cleanup_loop f (filter (row_expired now) (files_table db))
                       (storage_bucket db) 0)\<rparr>, 0)
      else (db\<lparr>files_table :=
                 map (\<lambda>r. if row_expired now r then r\<lparr>row_is_active := False\<rparr> else r)
                   (files_table db),
               storage_bucket :=
                 fst (supabase_cleanup_loop f (filter (row_expired now) (files_table db))
                        (storage_bucket db) 0)\<rparr>,
            length (filter (row_expired now) (files_table db))))"
proof -
  obtain st c where loop:
    "supabase_cleanup_loop f (filter (row_expired now) (files_table db)) (storage_bucket db) 0
       = (st, c)"
    by (cases "supabase_cleanup_loop f (filter (row_expired now) (files_table db))
          (storage_bucket db) 0")
  have "c = length (filter (row_expired now) (files_table db))"
    using supabase_cleanup_loop_count
      [of f "filter (row_expired now) (files_table db)" "storage_bucket db" 0] loop
    by simp
  then show ?thesis
    by (simp add: supabase_cleanup_expired_files_def loop)
qed

lemma supabase_cleanup_idempotent:
  "supabase_cleanup_expired_files f (fst (supabase_cleanup_expired_files f db now)) now =
     (fst (supabase_cleanup_expired_files f db now), 0)"
proof -
  let ?rs = "filter (row_expired now) (files_table db)"
  let ?st = "fst (supabase_cleanup_loop f ?rs (storage_bucket db) 0)"
  have again: "fst (supabase_cleanup_loop f ?rs ?st 0) = ?st"
    by (rule supabase_cleanup_loop_again) simp
  have none: "fst (supabase_cleanup_loop f [] ?st 0) = ?st"
    by simp
  show ?thesis
    by (simp add: supabase_cleanup_result row_expired_deactivated again)
qed

text \<open>
  C7: in both backends a second sweep at the same instant, under the same faults, on the
  state the first sweep left, deactivates nothing and changes nothing.
\<close>

theorem cleanup_expired_files_idempotent:
  "cleanup_expired_files f (fst (cleanup_expired_files f db now)) now =
     (fst (cleanup_expired_files f db now), 0) \<and>
   supabase_cleanup_expired_files g (fst (supabase_cleanup_expired_files g sdb now)) now =
     (fst (supabase_cleanup_expired_files g sdb now), 0)"
  using mongodb_cleanup_idempotent supabase_cleanup_idempotent by (rule conjI)

section \<open>Evaluating the examples\<close>

lemma uuid_str_u1: "uuid_str u1 = ''1234abcd-0000-4000-8000-00000000beef''"
  by (simp add: u1_def uuid_str_def hex32_def hexdigit_def rev_upt_32 Let_def)

lemma uuid_str_u2: "uuid_str u2 = ''1234abcd-1111-4111-9111-11111111cafe''"
  by (simp add: u2_def uuid_str_def hex32_def hexdigit_def rev_upt_32 Let_def)

lemma upper_code_a: "upper ''1234ABCD'' = ''1234ABCD''"
  by code_simp


lemma generate_u1: "generate_download_code u1 8 = ''1234ABCD''"
  by (simp add: generate_download_code_def slice_to_def replace_dash_def uuid_str_u1) code_simp

lemma generate_u2: "generate_download_code u2 8 = ''1234ABCD''"
  by (simp add: generate_download_code_def slice_to_def replace_dash_def uuid_str_u2) code_simp

lemmas example_defs =
  no_faults_def empty_db_def file_a_def file_b_def db_a_def db_ab_def record_a_def
  record_b_def blob_a_def blob_b_def db_orphan_def db_missing_blob_def lookup_outage_def
  insert_outage_def

lemmas upload_defs =
  upload_file_def validate_file_size_def MAX_FILE_SIZE_def upload_file_to_mongodb_def
  create_file_record_def days_def Let_def

lemmas download_defs =
  download_file_def preview_file_def get_file_by_code_def download_file_from_mongodb_def
  increment_download_count_def

lemmas supabase_example_defs =
  no_supabase_faults_def storage_outage_def supabase_a_def empty_supabase_def row_a_def

lemma upload_a:
  "upload_file no_faults empty_db file_a u1 1000 = (db_a, Inr (''1234ABCD'', ''a.txt'', 9))"
  by (simp add: upload_defs example_defs generate_u1 upper_code_a)

lemma upload_b:
  "upload_file no_faults db_a file_b u2 2000 = (db_ab, Inr (''1234ABCD'', ''b.bin'', 2))"
  by (simp add: upload_defs example_defs generate_u2 upper_code_a)

section \<open>Lookup\<close>

lemma download_file_not_found_iff:
  "(snd (download_file f db code) = Inl (HTTPException 404 ''Invalid download code'')) =
     (find_raises f \<or>
      filter (\<lambda>r. download_code r = upper code \<and> is_active r) (files_collection db) = [])"
proof -
  have "(get_file_by_code f db (upper code) = None) =
      (find_raises f \<or>
       filter (\<lambda>r. download_code r = upper code \<and> is_active r) (files_collection db) = [])"
    by (simp add: get_file_by_code_def upper_idem find_None_iff_filter)
  moreover have "(snd (download_file f db code) = Inl (HTTPException 404 ''Invalid download code''))
      = (get_file_by_code f db (upper code) = None)"
    by (auto simp: download_file_def download_file_from_mongodb_def
        split: option.splits sum.splits prod.splits)
  ultimately show ?thesis by simp
qed

lemma preview_file_not_found_iff:
  "(preview_file f db code = Inl (JSONResponse 404 ''Invalid download code'')) =
     (find_raises f \<or>
      filter (\<lambda>r. download_code r = upper code \<and> is_active r) (files_collection db) = [])"
proof -
  have "(get_file_by_code f db (upper code) = None) =
      (find_raises f \<or>
       filter (\<lambda>r. download_code r = upper code \<and> is_active r) (files_collection db) = [])"
    by (simp add: get_file_by_code_def upper_idem find_None_iff_filter)
  moreover have "(preview_file f db code = Inl (JSONResponse 404 ''Invalid download code''))
      = (get_file_by_code f db (upper code) = None)"
    by (auto simp: preview_file_def split: option.splits)
  ultimately show ?thesis by simp
qed

text \<open>
  C1, as the code has it: neither \<^verbatim>\<open>get_file_by_code\<close> nor the handlers read the clock or
  \<^verbatim>\<open>expiry_date\<close>. Fetch and Inspect answer "Invalid download code" exactly when the
  lookup raised or no document with \<^verbatim>\<open>is_active\<close> set carries the upper-cased code. A
  document past its expiry is therefore served until something clears its \<^verbatim>\<open>is_active\<close>.
\<close>

theorem fetch_rejects_only_inactive:
  "(snd (download_file f db code) = Inl (HTTPException 404 ''Invalid download code'')) =
     (find_raises f \<or>
      filter (\<lambda>r. download_code r = upper code \<and> is_active r) (files_collection db) = []) \<and>
   (preview_file f db code = Inl (JSONResponse 404 ''Invalid download code'')) =
     (find_raises f \<or>
      filter (\<lambda>r. download_code r = upper code \<and> is_active r) (files_collection db) = [])"
  using download_file_not_found_iff preview_file_not_found_iff by (rule conjI)

text \<open>
  The claim as the specification states it fails: \<open>record_a\<close> expired at 605800, the clock
  reads 2000000, no sweep has run, and both handlers still serve it.
\<close>

theorem fetch_serves_expired_record:
  "record_a \<in> set (files_collection db_a) \<and> expired 2000000 record_a \<and>
   snd (download_file no_faults db_a (download_code record_a)) =
     Inr \<lparr>body = uf_content file_a, media_type = Some ''text/plain'',
          attachment_filename = ''a.txt''\<rparr> \<and>
   preview_file no_faults db_a (download_code record_a) =
     Inr \<lparr>pv_filename = ''a.txt'', pv_file_size = 9, pv_mime_type = Some ''text/plain'',
          pv_upload_date = 1000, pv_download_count = 0\<rparr>"
  by (simp add: download_defs example_defs expired_def upper_idem upper_code_a)

text \<open>
  C10: when the lookup raises, \<^verbatim>\<open>get_file_by_code\<close> returns \<^verbatim>\<open>None\<close> and both handlers answer
  404 "Invalid download code", the very answer they give for a code that no document
  carries.
\<close>

theorem lookup_outage_reported_as_not_found:
  "find_raises f \<Longrightarrow>
   get_file_by_code f db code = None \<and>
   download_file f db code = (db, Inl (HTTPException 404 ''Invalid download code'')) \<and>
   preview_file f db code = Inl (JSONResponse 404 ''Invalid download code'') \<and>
   snd (download_file f db code) = snd (download_file no_faults empty_db code) \<and>
   preview_file f db code = preview_file no_faults empty_db code"
  by (simp add: download_defs no_faults_def empty_db_def)

theorem lookup_outage_reported_as_not_found_witness:
  "find_raises lookup_outage \<and>
   get_file_by_code lookup_outage db_a ''1234ABCD'' = None \<and>
   download_file lookup_outage db_a ''1234ABCD'' =
     (db_a, Inl (HTTPException 404 ''Invalid download code'')) \<and>
   preview_file lookup_outage db_a ''1234ABCD'' = Inl (JSONResponse 404 ''Invalid download code'') \<and>
   get_file_by_code no_faults db_a ''1234ABCD'' = Some record_a"
proof -
  have h: "find_raises lookup_outage"
    by (simp add: lookup_outage_def no_faults_def)
  have "get_file_by_code no_faults db_a ''1234ABCD'' = Some record_a"
    by (simp add: get_file_by_code_def example_defs upper_code_a)
  then show ?thesis
    using h lookup_outage_reported_as_not_found [OF h, of db_a "''1234ABCD''"] by simp
qed

section \<open>Store\<close>

lemma upload_file_to_mongodb_Inr:
  assumes "upload_file_to_mongodb f db file code now = (db1, Inr fid)"
  shows "fid = next_object_id db" and "map_of (gridfs_bucket db) fid = None"
    and "map_of (gridfs_bucket db1) fid =
      Some \<lparr>gf_filename = uf_filename file, gf_content = uf_content file,
            gf_content_type = uf_content_type file, gf_download_code = code,
            gf_upload_date = now, gf_original_size = length (uf_content file)\<rparr>"
    and "files_collection db1 = files_collection db"
  using assms by (auto simp: upload_file_to_mongodb_def Let_def map_add_def split: if_splits)

lemma create_file_record_Inr:
  assumes "create_file_record f db code file gid now = (db2, Inr r)"
  shows "files_collection db2 = files_collection db @ [r]"
    and "gridfs_bucket db2 = gridfs_bucket db"
    and "r = \<lparr>oid = next_object_id db, download_code = upper code,
               original_filename = uf_filename file, file_size = uf_size file,
               mime_type = uf_content_type file, gridfs_id = gid, upload_date = now,
               download_count = 0, expiry_date = Some (now + days 7), is_active = True\<rparr>"
  using assms by (auto simp: create_file_record_def Let_def split: if_splits)

lemma upload_file_Inr:
  assumes "upload_file f db file u now = (db2, Inr res)"
  obtains db1 fid r where
    "validate_file_size (uf_size file) MAX_FILE_SIZE"
    "upload_file_to_mongodb f db file (generate_download_code u 8) now = (db1, Inr fid)"
    "create_file_record f db1 (generate_download_code u 8) file fid now = (db2, Inr r)"
    "res = (generate_download_code u 8, uf_filename file, uf_size file)"
  using assms
  by (auto simp: upload_file_def Let_def split: if_splits prod.splits sum.splits)

text \<open>
  C5, as the code has it: when the metadata insert raises after the GridFS write went
  through, \<^verbatim>\<open>upload_file\<close> answers 500 with the detail of \<^verbatim>\<open>create_file_record\<close>'s
  exception and does nothing else: the collection is as before and the file just written
  stays in GridFS. No handler of the repository deletes a blob on this path.
\<close>

theorem upload_file_insert_failure:
  "validate_file_size (uf_size file) MAX_FILE_SIZE \<Longrightarrow>
   upload_file_to_mongodb f db file (generate_download_code u 8) now = (db1, Inr fid) \<Longrightarrow>
   insert_one_raises f \<Longrightarrow>
   upload_file f db file u now =
     (db1\<lparr>next_object_id := next_object_id db1 + 1\<rparr>,
      Inl (JSONResponse 500 ''Failed to create file record'')) \<and>
   files_collection (fst (upload_file f db file u now)) = files_collection db \<and>
   map_of (gridfs_bucket (fst (upload_file f db file u now))) fid =
     Some \<lparr>gf_filename = uf_filename file, gf_content = uf_content file,
           gf_content_type = uf_content_type file,
           gf_download_code = generate_download_code u 8,
           gf_upload_date = now, gf_original_size = length (uf_content file)\<rparr>"
proof -
  assume v: "validate_file_size (uf_size file) MAX_FILE_SIZE"
    and up: "upload_file_to_mongodb f db file (generate_download_code u 8) now = (db1, Inr fid)"
    and ins: "insert_one_raises f"
  have res: "upload_file f db file u now =
     (db1\<lparr>next_object_id := next_object_id db1 + 1\<rparr>,
      Inl (JSONResponse 500 ''Failed to create file record''))"
    using v up ins by (simp add: upload_file_def create_file_record_def Let_def)
  show ?thesis
    using upload_file_to_mongodb_Inr(3,4) [OF up] by (simp add: res)
qed

theorem upload_file_insert_failure_witness:
  "validate_file_size (uf_size file_a) MAX_FILE_SIZE \<and>
   upload_file_to_mongodb insert_outage empty_db file_a (generate_download_code u1 8) 1000 =
     (db_orphan\<lparr>next_object_id := 1\<rparr>, Inr 0) \<and>
   insert_one_raises insert_outage \<and>
   upload_file insert_outage empty_db file_a u1 1000 =
     (db_orphan, Inl (JSONResponse 500 ''Failed to create file record''))"
proof -
  have v: "validate_file_size (uf_size file_a) MAX_FILE_SIZE"
    by (simp add: validate_file_size_def MAX_FILE_SIZE_def file_a_def)
  have up: "upload_file_to_mongodb insert_outage empty_db file_a (generate_download_code u1 8) 1000 =
     (db_orphan\<lparr>next_object_id := 1\<rparr>, Inr 0)"
    by (simp add: upload_file_to_mongodb_def example_defs generate_u1 Let_def)
  have ins: "insert_one_raises insert_outage"
    by (simp add: insert_outage_def no_faults_def)
  show ?thesis
    using v up ins upload_file_insert_failure [OF v up ins]
    by (simp add: db_orphan_def)
qed

text \<open>
  The claim as the specification states it fails: the insert raises, GridFS accepts
  deletions (\<open>gridfs_delete_raises\<close> is off), and the blob written a moment before is
  still there afterwards with no document pointing at it.
\<close>

theorem upload_file_leaves_orphan_blob:
  "\<not> gridfs_delete_raises insert_outage \<and>
   upload_file insert_outage empty_db file_a u1 1000 =
     (db_orphan, Inl (JSONResponse 500 ''Failed to create file record'')) \<and>
   map_of (gridfs_bucket db_orphan) 0 = Some blob_a \<and>
   files_collection db_orphan = []"
  by (simp add: upload_defs example_defs generate_u1)

text \<open>
  C2 on the code. \<^verbatim>\<open>upload_file\<close> draws one code ("Generate unique download code", says
  its comment) and inserts the document without looking for a conflict. Two stores in a
  row, the second drawing a UUID that shares its first eight digits with the first, both
  succeed with the same code, and both documents are active afterwards. The table of
  \<^verbatim>\<open>supabase_client.py\<close> declares the column unique and refuses the second insert.
\<close>

theorem sequential_uploads_share_active_code:
  "u1 \<noteq> u2 \<and>
   upload_file no_faults empty_db file_a u1 1000 = (db_a, Inr (''1234ABCD'', ''a.txt'', 9)) \<and>
   upload_file no_faults db_a file_b u2 2000 = (db_ab, Inr (''1234ABCD'', ''b.bin'', 2)) \<and>
   active_codes db_ab = [''1234ABCD'', ''1234ABCD''] \<and> \<not> distinct (active_codes db_ab) \<and>
   supabase_create_file_record no_supabase_faults supabase_a ''1234ABCD'' file_b
     ''1234ABCD/b.bin'' 7 u2 2000 =
     (supabase_a, Inl (HTTPException 500 ''Failed to create file record''))"
proof -
  have "u1 \<noteq> u2" by (simp add: u1_def u2_def)
  moreover have "active_codes db_ab = [''1234ABCD'', ''1234ABCD'']"
    by (simp add: active_codes_def db_ab_def record_a_def record_b_def)
  moreover have "supabase_create_file_record no_supabase_faults supabase_a ''1234ABCD'' file_b
     ''1234ABCD/b.bin'' 7 u2 2000 =
     (supabase_a, Inl (HTTPException 500 ''Failed to create file record''))"
    by (simp add: supabase_create_file_record_def supabase_example_defs file_b_def uuid_str_u2
        Let_def)
  ultimately show ?thesis
    using upload_a upload_b by simp
qed

section \<open>Store then Fetch\<close>

text \<open>
  Away from a collision the round trip holds: when \<^verbatim>\<open>upload_file\<close> answered with a code
  that no active document carried before, and the lookup and the GridFS read of the
  following \<^verbatim>\<open>download_file\<close> do not raise, the response carries the uploaded bytes, the
  uploaded file name and the uploaded content type.
\<close>

lemma store_fetch_round_trip_without_collision:
  "upload_file f db file u now = (db', Inr (code, name, sz)) \<Longrightarrow>
   filter (\<lambda>r. download_code r = code \<and> is_active r) (files_collection db) = [] \<Longrightarrow>
   \<not> find_raises g \<Longrightarrow> \<not> open_download_stream_raises g \<Longrightarrow>
   snd (download_file g db' code) =
     Inr \<lparr>body = uf_content file, media_type = uf_content_type file,
          attachment_filename = uf_filename file\<rparr>"
proof -
  assume run: "upload_file f db file u now = (db', Inr (code, name, sz))"
    and fresh: "filter (\<lambda>r. download_code r = code \<and> is_active r) (files_collection db) = []"
    and g1: "\<not> find_raises g" and g2: "\<not> open_download_stream_raises g"
  from run obtain db1 fid r where
    up: "upload_file_to_mongodb f db file (generate_download_code u 8) now = (db1, Inr fid)" and
    cr: "create_file_record f db1 (generate_download_code u 8) file fid now = (db', Inr r)" and
    res: "(code, name, sz) = (generate_download_code u 8, uf_filename file, uf_size file)"
    by (rule upload_file_Inr)
  have code: "code = generate_download_code u 8" using res by simp
  have ucode: "upper code = code" by (simp add: code upper_generate_download_code)
  have files: "files_collection db' = files_collection db @ [r]"
    using create_file_record_Inr(1) [OF cr] upload_file_to_mongodb_Inr(4) [OF up] by simp
  have r: "download_code r = code" "is_active r" "gridfs_id r = fid"
    "mime_type r = uf_content_type file"
    using create_file_record_Inr(3) [OF cr] by (simp_all add: code upper_generate_download_code)
  have blob: "map_of (gridfs_bucket db') fid =
      Some \<lparr>gf_filename = uf_filename file, gf_content = uf_content file,
            gf_content_type = uf_content_type file, gf_download_code = generate_download_code u 8,
            gf_upload_date = now, gf_original_size = length (uf_content file)\<rparr>"
    using create_file_record_Inr(2) [OF cr] upload_file_to_mongodb_Inr(3) [OF up] by simp
  have "find (\<lambda>r. download_code r = code \<and> is_active r) (files_collection db) = None"
    using fresh by (simp add: find_None_iff_filter)
  then have look: "get_file_by_code g db' (upper code) = Some r"
    using g1 r by (simp add: get_file_by_code_def ucode files find_append)
  have read: "download_file_from_mongodb g db' (gridfs_id r) =
      Inr (uf_content file, uf_filename file)"
    using g2 blob r(3) by (simp add: download_file_from_mongodb_def)
  show ?thesis
    by (simp add: download_file_def look read r(4))
qed

text \<open>
  C3 on the code. A store on \<open>db_a\<close> whose UUID starts with the digits of \<open>record_a\<close>'s
  code succeeds and returns a code that \<open>record_a\<close> already carries; the lookup takes the
  first active match, and the fetch that follows answers with the first upload's bytes,
  name and type, not with what was just stored.
\<close>

theorem fetch_after_colliding_store_returns_other_file:
  "validate_file_size (uf_size file_b) MAX_FILE_SIZE \<and>
   upload_file no_faults db_a file_b u2 2000 = (db_ab, Inr (''1234ABCD'', ''b.bin'', 2)) \<and>
   snd (download_file no_faults db_ab ''1234ABCD'') =
     Inr \<lparr>body = uf_content file_a, media_type = uf_content_type file_a,
          attachment_filename = uf_filename file_a\<rparr> \<and>
   uf_content file_a \<noteq> uf_content file_b \<and> uf_filename file_a \<noteq> uf_filename file_b"
proof -
  have "snd (download_file no_faults db_ab ''1234ABCD'') =
     Inr \<lparr>body = uf_content file_a, media_type = uf_content_type file_a,
          attachment_filename = uf_filename file_a\<rparr>"
    by (simp add: download_defs example_defs upper_idem upper_code_a)
  moreover have "validate_file_size (uf_size file_b) MAX_FILE_SIZE"
    by (simp add: validate_file_size_def MAX_FILE_SIZE_def file_b_def)
  moreover have "uf_content file_a \<noteq> uf_content file_b" "uf_filename file_a \<noteq> uf_filename file_b"
    by (simp_all add: file_a_def file_b_def)
  ultimately show ?thesis
    using upload_b by simp
qed

section \<open>A blob that cannot be deleted\<close>

lemma mongodb_sweep_blocked_by_delete_fault:
  "gridfs_delete_raises f \<Longrightarrow> cleanup_expired_files f db now = (db, 0)"
  by (simp add: cleanup_expired_files_def cleanup_loop_delete_fault)

lemma supabase_sweep_deactivates_despite_storage:
  "\<not> query_raises f \<Longrightarrow> \<not> commit_raises f \<Longrightarrow>
   filter (row_expired now) (files_table (fst (supabase_cleanup_expired_files f db now))) = [] \<and>
   snd (supabase_cleanup_expired_files f db now) = length (filter (row_expired now) (files_table db))"
  by (simp add: supabase_cleanup_result row_expired_deactivated)

text \<open>
  C6 on the code. In \<^verbatim>\<open>mongodb_client.py\<close> the GridFS delete and the deactivation share one
  \<^verbatim>\<open>try\<close>, the delete first: \<open>record_a\<close> is expired and active, its blob is gone from
  GridFS (or GridFS refuses the delete), the delete raises, and the sweep leaves the
  document active, counts nothing, and the lookup still finds it. The sweep of
  \<^verbatim>\<open>supabase_client.py\<close> on the same situation deactivates the row and counts it.
\<close>

theorem mongodb_sweep_skips_deactivation_when_delete_fails:
  "expired 2000000 record_a \<and>
   cleanup_expired_files no_faults db_missing_blob 2000000 = (db_missing_blob, 0) \<and>
   cleanup_expired_files delete_outage db_a 2000000 = (db_a, 0) \<and>
   get_file_by_code no_faults db_missing_blob ''1234ABCD'' = Some record_a \<and>
   row_expired 2000000 row_a \<and>
   supabase_cleanup_expired_files storage_outage supabase_a 2000000 =
     (supabase_a\<lparr>files_table := [row_a\<lparr>row_is_active := False\<rparr>]\<rparr>, 1)"
proof -
  have "expired 2000000 record_a"
    by (simp add: expired_def record_a_def)
  moreover have "cleanup_expired_files no_faults db_missing_blob 2000000 = (db_missing_blob, 0)"
    by (simp add: cleanup_expired_files_def expired_def example_defs)
  moreover have "cleanup_expired_files delete_outage db_a 2000000 = (db_a, 0)"
    by (rule mongodb_sweep_blocked_by_delete_fault) (simp add: delete_outage_def no_faults_def)
  moreover have "get_file_by_code no_faults db_missing_blob ''1234ABCD'' = Some record_a"
    by (simp add: get_file_by_code_def example_defs upper_code_a)
  moreover have "row_expired 2000000 row_a"
    by (simp add: row_expired_def row_a_def)
  moreover have "supabase_cleanup_expired_files storage_outage supabase_a 2000000 =
     (supabase_a\<lparr>files_table := [row_a\<lparr>row_is_active := False\<rparr>]\<rparr>, 1)"
    by (simp add: supabase_cleanup_expired_files_def row_expired_def supabase_example_defs
        delete_file_from_supabase_def)
  ultimately show ?thesis by simp
qed

section \<open>Expiry at creation\<close>

lemma find_map_expiry_date:
  "find (\<lambda>r. download_code r = c \<and> is_active r) (map (expiry_date_update e) xs) =
     map_option (expiry_date_update e) (find (\<lambda>r. download_code r = c \<and> is_active r) xs)"
  by (induction xs) auto

lemma preview_file_ignores_expiry:
  "preview_file g (db\<lparr>files_collection := map (expiry_date_update e) (files_collection db)\<rparr>) code
     = preview_file g db code"
  by (simp add: preview_file_def get_file_by_code_def find_map_expiry_date
      split: option.splits)

lemma upload_file_success:
  assumes "validate_file_size (uf_size upl) MAX_FILE_SIZE"
    and "\<not> upload_from_stream_raises f" and "\<not> insert_one_raises f"
    and "map_of (gridfs_bucket db) (next_object_id db) = None"
    and "find (\<lambda>x. oid x = next_object_id db + 1) (files_collection db) = None"
  shows "upload_file f db upl u now =
     (\<lparr>files_collection = files_collection db @
          [\<lparr>oid = next_object_id db + 1, download_code = generate_download_code u 8,
            original_filename = uf_filename upl, file_size = uf_size upl,
            mime_type = uf_content_type upl, gridfs_id = next_object_id db,
            upload_date = now, download_count = 0, expiry_date = Some (now + days 7),
            is_active = True\<rparr>],
        gridfs_bucket = gridfs_bucket db @
          [(next_object_id db,
            \<lparr>gf_filename = uf_filename upl, gf_content = uf_content upl,
             gf_content_type = uf_content_type upl,
             gf_download_code = generate_download_code u 8, gf_upload_date = now,
             gf_original_size = length (uf_content upl)\<rparr>)],
        next_object_id = next_object_id db + 2\<rparr>,
      Inr (generate_download_code u 8, uf_filename upl, uf_size upl))"
  using assms
  by (simp add: upload_file_def upload_file_to_mongodb_def create_file_record_def Let_def
      upper_generate_download_code)

lemma upload_file_adds_at_most_one:
  "files_collection (fst (upload_file f db upl u now)) = files_collection db \<or>
   files_collection (fst (upload_file f db upl u now)) = files_collection db @
     [\<lparr>oid = next_object_id db + 1, download_code = generate_download_code u 8,
       original_filename = uf_filename upl, file_size = uf_size upl,
       mime_type = uf_content_type upl, gridfs_id = next_object_id db,
       upload_date = now, download_count = 0, expiry_date = Some (now + days 7),
       is_active = True\<rparr>]"
  by (simp add: upload_file_def upload_file_to_mongodb_def create_file_record_def Let_def
      upper_generate_download_code)

text \<open>
  C4, as the code has it: \<^verbatim>\<open>upload_file\<close> takes no time to live. When the size is within
  the limit, the two store calls do not raise and the allocator's next two ids are
  unused, it inserts exactly one document, active, with a download count of 0 and an
  expiry of \<open>now + 7\<close> days; whatever happens, it adds that document or none, so no store
  leaves a document without expiry. \<^verbatim>\<open>preview_file\<close> answers with the file name, the
  size, the content type, the upload date and the download count: its answer is the
  same whatever the expiry dates in the collection are.
\<close>

theorem upload_file_expiry_is_seven_days:
  "(validate_file_size (uf_size upl) MAX_FILE_SIZE \<and>
    \<not> upload_from_stream_raises f \<and> \<not> insert_one_raises f \<and>
    map_of (gridfs_bucket db) (next_object_id db) = None \<and>
    find (\<lambda>x. oid x = next_object_id db + 1) (files_collection db) = None \<longrightarrow>
    upload_file f db upl u now =
      (\<lparr>files_collection = files_collection db @
           [\<lparr>oid = next_object_id db + 1, download_code = generate_download_code u 8,
             original_filename = uf_filename upl, file_size = uf_size upl,
             mime_type = uf_content_type upl, gridfs_id = next_object_id db,
             upload_date = now, download_count = 0, expiry_date = Some (now + days 7),
             is_active = True\<rparr>],
         gridfs_bucket = gridfs_bucket db @
           [(next_object_id db,
             \<lparr>gf_filename = uf_filename upl, gf_content = uf_content upl,
              gf_content_type = uf_content_type upl,
              gf_download_code = generate_download_code u 8, gf_upload_date = now,
              gf_original_size = length (uf_content upl)\<rparr>)],
         next_object_id = next_object_id db + 2\<rparr>,
       Inr (generate_download_code u 8, uf_filename upl, uf_size upl))) \<and>
   (files_collection (fst (upload_file f db upl u now)) = files_collection db \<or>
    files_collection (fst (upload_file f db upl u now)) = files_collection db @
      [\<lparr>oid = next_object_id db + 1, download_code = generate_download_code u 8,
        original_filename = uf_filename upl, file_size = uf_size upl,
        mime_type = uf_content_type upl, gridfs_id = next_object_id db,
        upload_date = now, download_count = 0, expiry_date = Some (now + days 7),
        is_active = True\<rparr>]) \<and>
   preview_file g (db\<lparr>files_collection := map (expiry_date_update e) (files_collection db)\<rparr>) code
     = preview_file g db code"
  using upload_file_success [of upl f db u now] upload_file_adds_at_most_one [of f db upl u now]
    preview_file_ignores_expiry [where g = g and db = db and e = e and code = code]
  by blast

theorem upload_file_expiry_is_seven_days_witness:
  "validate_file_size (uf_size file_b) MAX_FILE_SIZE \<and>
   \<not> upload_from_stream_raises no_faults \<and> \<not> insert_one_raises no_faults \<and>
   map_of (gridfs_bucket db_a) (next_object_id db_a) = None \<and>
   find (\<lambda>x. oid x = next_object_id db_a + 1) (files_collection db_a) = None \<and>
   upload_file no_faults db_a file_b u2 2000 = (db_ab, Inr (''1234ABCD'', ''b.bin'', 2)) \<and>
   files_collection db_ab = files_collection db_a @ [record_b] \<and>
   expiry_date record_b = Some (2000 + days 7) \<and>
   preview_file no_faults
     (db_ab\<lparr>files_collection := map (expiry_date_update (\<lambda>_. None)) (files_collection db_ab)\<rparr>)
     ''1234ABCD'' =
     Inr \<lparr>pv_filename = ''a.txt'', pv_file_size = 9, pv_mime_type = Some ''text/plain'',
          pv_upload_date = 1000, pv_download_count = 0\<rparr>"
proof -
  have pre: "validate_file_size (uf_size file_b) MAX_FILE_SIZE \<and>
      \<not> upload_from_stream_raises no_faults \<and> \<not> insert_one_raises no_faults \<and>
      map_of (gridfs_bucket db_a) (next_object_id db_a) = None \<and>
      find (\<lambda>x. oid x = next_object_id db_a + 1) (files_collection db_a) = None"
    by (simp add: validate_file_size_def MAX_FILE_SIZE_def example_defs)
  have files: "files_collection db_ab = files_collection db_a @ [record_b]"
    by (simp add: db_ab_def db_a_def)
  have exp: "expiry_date record_b = Some (2000 + days 7)"
    by (simp add: record_b_def days_def)
  have pv: "preview_file no_faults db_ab ''1234ABCD'' =
     Inr \<lparr>pv_filename = ''a.txt'', pv_file_size = 9, pv_mime_type = Some ''text/plain'',
          pv_upload_date = 1000, pv_download_count = 0\<rparr>"
    by (simp add: preview_file_def get_file_by_code_def example_defs upper_idem upper_code_a)
  note at_a = upload_file_expiry_is_seven_days [where upl = file_b and f = no_faults
      and db = db_a and u = u2 and now = 2000 and g = no_faults and e = "\<lambda>_. None"
      and code = "''1234ABCD''"]
  note at_ab = upload_file_expiry_is_seven_days [where upl = file_b and f = no_faults
      and db = db_ab and u = u2 and now = 2000 and g = no_faults and e = "\<lambda>_. None"
      and code = "''1234ABCD''"]
  have up: "upload_file no_faults db_a file_b u2 2000 = (db_ab, Inr (''1234ABCD'', ''b.bin'', 2))"
    using at_a pre by (simp add: example_defs generate_u2 days_def)
  have pv2: "preview_file no_faults
     (db_ab\<lparr>files_collection := map (expiry_date_update (\<lambda>_. None)) (files_collection db_ab)\<rparr>)
     ''1234ABCD'' =
     Inr \<lparr>pv_filename = ''a.txt'', pv_file_size = 9, pv_mime_type = Some ''text/plain'',
          pv_upload_date = 1000, pv_download_count = 0\<rparr>"
    using at_ab pv by simp
  show ?thesis
    using pre files exp up pv2 by simp
qed

text \<open>
  The claim as the specification states it fails: no store can ask for "no expiry". The
  specification's own scenario (\<open>file_a\<close> into the empty store) leaves one document, and
  its expiry is set; the preview of its code has no expiry to show.
\<close>

theorem upload_file_never_without_expiry:
  "upload_file no_faults empty_db file_a u1 1000 = (db_a, Inr (''1234ABCD'', ''a.txt'', 9)) \<and>
   map expiry_date (files_collection db_a) = [Some (1000 + days 7)] \<and>
   None \<notin> set (map expiry_date (files_collection db_a)) \<and>
   preview_file no_faults db_a ''1234ABCD'' =
     Inr \<lparr>pv_filename = ''a.txt'', pv_file_size = 9, pv_mime_type = Some ''text/plain'',
          pv_upload_date = 1000, pv_download_count = 0\<rparr>"
proof -
  have "map expiry_date (files_collection db_a) = [Some (1000 + days 7)]"
    by (simp add: db_a_def record_a_def days_def)
  moreover have "preview_file no_faults db_a ''1234ABCD'' =
     Inr \<lparr>pv_filename = ''a.txt'', pv_file_size = 9, pv_mime_type = Some ''text/plain'',
          pv_upload_date = 1000, pv_download_count = 0\<rparr>"
    by (simp add: preview_file_def get_file_by_code_def example_defs upper_idem upper_code_a)
  ultimately show ?thesis
    using upload_a by simp
qed

section \<open>Case of the code\<close>








end
